theory Spec2Isabelle
  imports Main
begin

section \<open>Quota availability in \<^verbatim>\<open>pretix/base/models/items.py\<close>\<close>

subsection \<open>Availability states and verdicts\<close>

text \<open>
  The four \<^verbatim>\<open>Quota.AVAILABILITY_*\<close> class constants are plain Python integers.
\<close>

definition AVAILABILITY_GONE :: int where
  "AVAILABILITY_GONE = 0"

definition AVAILABILITY_ORDERED :: int where
  "AVAILABILITY_ORDERED = 10"

definition AVAILABILITY_RESERVED :: int where
  "AVAILABILITY_RESERVED = 20"

definition AVAILABILITY_OK :: int where
  "AVAILABILITY_OK = 100"

text \<open>
  \<^verbatim>\<open>sys.maxsize\<close> on a 64-bit CPython build.
\<close>

definition sys_maxsize :: int where
  "sys_maxsize = 9223372036854775807"

text \<open>
  A verdict is the Python tuple \<^verbatim>\<open>(state, number)\<close>. The number is \<^verbatim>\<open>None\<close> for an
  unlimited quota. The state is an integer whenever the tuple comes from
  \<^verbatim>\<open>_availability\<close>; it can be \<^verbatim>\<open>None\<close> only when the tuple is read back from the
  nullable column \<^verbatim>\<open>cached_availability_state\<close>.
\<close>

type_synonym verdict = "int option \<times> int option"

subsection \<open>The quota, its database row and the demand the database reports\<close>

text \<open>
  Time stamps are integers counting microseconds (the resolution of
  \<^verbatim>\<open>datetime\<close>), so \<^verbatim>\<open>(a - b).total_seconds() < 120\<close> is \<open>a - b < 120000000\<close>.
\<close>

type_synonym datetime = int

text \<open>
  The attributes of a \<^verbatim>\<open>Quota\<close> instance that the availability code reads or writes.
  \<^verbatim>\<open>size\<close> is a nullable \<^verbatim>\<open>PositiveIntegerField\<close>.
\<close>

record quota =
  pk :: nat
  subevent :: "nat option"
  quota_size :: "nat option"
  cached_availability_state :: "int option"
  cached_availability_number :: "int option"
  cached_availability_paid_orders :: "int option"
  cached_availability_time :: "datetime option"

text \<open>
  The four columns of the quota's database row that
  \<^verbatim>\<open>save(update_fields=[...])\<close> in \<^verbatim>\<open>availability\<close> writes.
\<close>

record quota_row =
  row_state :: "int option"
  row_number :: "int option"
  row_paid_orders :: "int option"
  row_time :: "datetime option"

text \<open>
  What the five count queries of a quota answer. The order, cart, voucher and waiting
  list tables are outside this file, so their contents enter as the numbers the
  queries return; the voucher and cart counts depend on the time they are asked for.
  SQL \<^verbatim>\<open>COUNT\<close> and the sum of \<^verbatim>\<open>GREATEST(max_usages - redeemed, 0)\<close> are never
  negative.
\<close>

record demand =
  paid_orders :: nat
  pending_orders :: nat
  blocking_vouchers :: "datetime \<Rightarrow> nat"
  in_cart :: "datetime \<Rightarrow> nat"
  waiting_list_pending :: nat

text \<open>
  A quota object as the code sees it: the instance in memory, its persisted row, and
  the answers of the database to its count queries.
\<close>

record qobj =
  inst :: quota
  stored :: quota_row
  dem :: demand

subsection \<open>The environment shared by all quotas\<close>

datatype query =
    CountPaidOrders
  | CountPendingOrders
  | CountBlockingVouchers datetime
  | CountInCart datetime
  | CountWaitingListPending

text \<open>
  \<open>item_quota_cache\<close>: whether the event cache holds the key \<^verbatim>\<open>'item_quota_cache'\<close>.
  \<open>clock\<close> and \<open>ticks\<close>: the system clock as the sequence of values that successive
  calls of \<^verbatim>\<open>now()\<close> return. \<open>queries\<close> logs every count query issued (latest last)
  and \<open>computations\<close> counts the runs of \<^verbatim>\<open>_availability\<close>; the code has neither,
  they record what it does.
\<close>

record env =
  item_quota_cache :: bool
  clock :: "nat \<Rightarrow> datetime"
  ticks :: nat
  queries :: "query list"
  computations :: nat

definition now :: "env \<Rightarrow> datetime \<times> env" where
  "now e = (clock e (ticks e), e\<lparr>ticks := Suc (ticks e)\<rparr>)"

text \<open>
  \<^verbatim>\<open>now_dt = now_dt or now()\<close>: a \<^verbatim>\<open>datetime\<close> is always truthy, so the clock is read
  exactly when the argument is \<^verbatim>\<open>None\<close>.
\<close>

definition now_dt_or_now :: "datetime option \<Rightarrow> env \<Rightarrow> datetime \<times> env" where
  "now_dt_or_now now_dt e = (case now_dt of Some t \<Rightarrow> (t, e) | None \<Rightarrow> now e)"

definition issue :: "query \<Rightarrow> env \<Rightarrow> env" where
  "issue x e = e\<lparr>queries := queries e @ [x]\<rparr>"

subsection \<open>The count queries\<close>

definition count_paid_orders :: "qobj \<Rightarrow> env \<Rightarrow> nat \<times> env" where
  "count_paid_orders q e = (paid_orders (dem q), issue CountPaidOrders e)"

definition count_pending_orders :: "qobj \<Rightarrow> env \<Rightarrow> nat \<times> env" where
  "count_pending_orders q e = (pending_orders (dem q), issue CountPendingOrders e)"

definition count_blocking_vouchers :: "datetime option \<Rightarrow> qobj \<Rightarrow> env \<Rightarrow> nat \<times> env" where
  "count_blocking_vouchers now_dt q e =
     (let (t, e1) = now_dt_or_now now_dt e
      in (blocking_vouchers (dem q) t, issue (CountBlockingVouchers t) e1))"

definition count_in_cart :: "datetime option \<Rightarrow> qobj \<Rightarrow> env \<Rightarrow> nat \<times> env" where
  "count_in_cart now_dt q e =
     (let (t, e1) = now_dt_or_now now_dt e
      in (in_cart (dem q) t, issue (CountInCart t) e1))"

definition count_waiting_list_pending :: "qobj \<Rightarrow> env \<Rightarrow> nat \<times> env" where
  "count_waiting_list_pending q e =
     (waiting_list_pending (dem q), issue CountWaitingListPending e)"

subsection \<open>\<^verbatim>\<open>Quota._availability\<close>\<close>

definition set_paid_orders :: "int option \<Rightarrow> qobj \<Rightarrow> qobj" where
  "set_paid_orders v q = q\<lparr>inst := (inst q)\<lparr>cached_availability_paid_orders := v\<rparr>\<rparr>"

text \<open>
  The method \<^verbatim>\<open>_availability\<close> (an Isabelle name cannot start with an underscore).
  It returns the verdict, the instance (whose \<^verbatim>\<open>cached_availability_paid_orders\<close>
  attribute it assigns) and the environment.
\<close>

definition underscore_availability ::
  "datetime option \<Rightarrow> bool \<Rightarrow> qobj \<Rightarrow> env \<Rightarrow> verdict \<times> qobj \<times> env" where
  "underscore_availability now_dt0 count_waitinglist q0 e0 =
     (let (now_dt, e1) = now_dt_or_now now_dt0 (e0\<lparr>computations := Suc (computations e0)\<rparr>)
      in case quota_size (inst q0) of
           None \<Rightarrow> ((Some AVAILABILITY_OK, None), q0, e1)
         | Some sz \<Rightarrow>
             let (paid, e2) = count_paid_orders q0 e1;
                 q1 = set_paid_orders (Some (int paid)) q0;
                 left1 = int sz - int paid
             in if left1 \<le> 0 then ((Some AVAILABILITY_GONE, Some 0), q1, e2)
                else
                  let (pending, e3) = count_pending_orders q1 e2;
                      left2 = left1 - int pending
                  in if left2 \<le> 0 then ((Some AVAILABILITY_ORDERED, Some 0), q1, e3)
                     else
                       let (blocking, e4) = count_blocking_vouchers (Some now_dt) q1 e3;
                           left3 = left2 - int blocking
                       in if left3 \<le> 0 then ((Some AVAILABILITY_RESERVED, Some 0), q1, e4)
                          else
                            let (cart, e5) = count_in_cart (Some now_dt) q1 e4;
                                left4 = left3 - int cart
                            in if left4 \<le> 0 then ((Some AVAILABILITY_RESERVED, Some 0), q1, e5)
                               else if count_waitinglist then
                                 let (waiting, e6) = count_waiting_list_pending q1 e5;
                                     left5 = left4 - int waiting
                                 in if left5 \<le> 0
                                    then ((Some AVAILABILITY_RESERVED, Some 0), q1, e6)
                                    else ((Some AVAILABILITY_OK, Some left5), q1, e6)
                               else ((Some AVAILABILITY_OK, Some left4), q1, e5))"

subsection \<open>\<^verbatim>\<open>Quota.cache_is_hot\<close>\<close>

text \<open>
  \<^verbatim>\<open>now_dt = now_dt or now()\<close> runs first, so the clock is read also when no time stamp
  is cached. The result is used as a truth value only.
\<close>

definition cache_is_hot :: "datetime option \<Rightarrow> qobj \<Rightarrow> env \<Rightarrow> bool \<times> env" where
  "cache_is_hot now_dt0 q e =
     (let (now_dt, e1) = now_dt_or_now now_dt0 e
      in (case cached_availability_time (inst q) of
            None \<Rightarrow> False
          | Some t \<Rightarrow> now_dt - t < 120 * 1000000,
          e1))"

subsection \<open>The call-scoped cache \<^verbatim>\<open>_cache\<close>\<close>

text \<open>
  The dictionary the caller may pass as \<^verbatim>\<open>_cache\<close>: verdicts under the primary keys
  of quotas, and the flag under the string key \<^verbatim>\<open>'_count_waitinglist'\<close>. The entries
  are an association list read with \<open>map_of\<close>.
\<close>

record call_cache =
  entries :: "(nat \<times> verdict) list"
  count_waitinglist_key :: "bool option"

definition cache_truthy :: "call_cache \<Rightarrow> bool" where
  "cache_truthy c = (\<not> (entries c = [] \<and> count_waitinglist_key c = None))"

definition cache_get_count_waitinglist :: "call_cache \<Rightarrow> bool" where
  "cache_get_count_waitinglist c = (case count_waitinglist_key c of None \<Rightarrow> True | Some b \<Rightarrow> b)"

definition cache_clear :: "call_cache \<Rightarrow> call_cache" where
  "cache_clear c = c\<lparr>entries := [], count_waitinglist_key := None\<rparr>"

definition cache_lookup :: "call_cache option \<Rightarrow> nat \<Rightarrow> verdict option" where
  "cache_lookup c k = (case c of None \<Rightarrow> None | Some d \<Rightarrow> map_of (entries d) k)"

definition cache_store :: "nat \<Rightarrow> verdict \<Rightarrow> bool \<Rightarrow> call_cache \<Rightarrow> call_cache" where
  "cache_store k v count_waitinglist c =
     c\<lparr>entries := (k, v) # filter (\<lambda>kv. fst kv \<noteq> k) (entries c),
       count_waitinglist_key := Some count_waitinglist\<rparr>"

subsection \<open>\<^verbatim>\<open>Quota.availability\<close>\<close>

text \<open>
  \<^verbatim>\<open>self.save(update_fields=[...], clear_cache=False)\<close>: the four cached attributes of
  the instance are written to the row; the event cache is not cleared.
\<close>

definition save_cached_fields :: "qobj \<Rightarrow> qobj" where
  "save_cached_fields q =
     q\<lparr>stored := \<lparr>row_state = cached_availability_state (inst q),
                   row_number = cached_availability_number (inst q),
                   row_paid_orders = cached_availability_paid_orders (inst q),
                   row_time = cached_availability_time (inst q)\<rparr>\<rparr>"

definition set_cached_verdict :: "verdict \<Rightarrow> datetime \<Rightarrow> qobj \<Rightarrow> qobj" where
  "set_cached_verdict res now_dt q =
     q\<lparr>inst := (inst q)\<lparr>cached_availability_state := fst res,
                         cached_availability_number := snd res,
                         cached_availability_time := Some now_dt\<rparr>\<rparr>"

text \<open>Lines 1019 to 1031: the write-back of a computed verdict.\<close>

definition write_back :: "verdict \<Rightarrow> datetime \<Rightarrow> bool \<Rightarrow> qobj \<Rightarrow> env \<Rightarrow> qobj \<times> env" where
  "write_back res now_dt count_waitinglist q e =
     (if count_waitinglist then
        let (hot, e1) = cache_is_hot (Some now_dt) q e
        in if \<not> hot then
             let q1 = set_cached_verdict res now_dt q;
                 (q2, e2) = (case quota_size (inst q1) of
                               None \<Rightarrow> let (paid, e') = count_paid_orders q1 e1
                                       in (set_paid_orders (Some (int paid)) q1, e')
                             | Some sz \<Rightarrow> (q1, e1))
             in (save_cached_fields q2, e2)
           else (q, e1)
      else (q, e))"

text \<open>
  Lines 1010 to 1011: a non-empty \<^verbatim>\<open>_cache\<close> filled under the other flag is emptied
  (in place, so the caller sees it).
\<close>

definition cache_check_flag :: "bool \<Rightarrow> call_cache option \<Rightarrow> call_cache option" where
  "cache_check_flag count_waitinglist c =
     (case c of
        None \<Rightarrow> None
      | Some d \<Rightarrow>
          if cache_truthy d \<and> count_waitinglist \<noteq> cache_get_count_waitinglist d
          then Some (cache_clear d) else Some d)"

text \<open>
  The arguments are \<^verbatim>\<open>now_dt\<close>, \<^verbatim>\<open>count_waitinglist\<close>, \<^verbatim>\<open>_cache\<close> and \<^verbatim>\<open>allow_cache\<close>.
  The result carries the returned tuple, the dictionary as the call leaves it, the
  instance with its row, and the environment. In
  \<^verbatim>\<open>allow_cache and self.cache_is_hot() and count_waitinglist\<close> the middle operand runs
  only when \<^verbatim>\<open>allow_cache\<close> holds.
\<close>

definition availability ::
  "datetime option \<Rightarrow> bool \<Rightarrow> call_cache option \<Rightarrow> bool \<Rightarrow> qobj \<Rightarrow> env
     \<Rightarrow> verdict \<times> call_cache option \<times> qobj \<times> env" where
  "availability now_dt0 count_waitinglist cache0 allow_cache q0 e0 =
     (let (hot, e1) = (if allow_cache then cache_is_hot None q0 e0 else (False, e0))
      in if allow_cache \<and> hot \<and> count_waitinglist
         then ((cached_availability_state (inst q0), cached_availability_number (inst q0)),
               cache0, q0, e1)
         else
           let cache1 = cache_check_flag count_waitinglist cache0
           in case cache_lookup cache1 (pk (inst q0)) of
                Some v \<Rightarrow> (v, cache1, q0, e1)
              | None \<Rightarrow>
                  let (now_dt, e2) = now_dt_or_now now_dt0 e1;
                      (res, q1, e3) = underscore_availability (Some now_dt) count_waitinglist q0 e2;
                      e4 = e3\<lparr>item_quota_cache := False\<rparr>;
                      (q2, e5) = write_back res now_dt count_waitinglist q1 e4;
                      cache2 = map_option (cache_store (pk (inst q0)) res count_waitinglist) cache1
                  in (res, cache2, q2, e5))"

subsection \<open>\<^verbatim>\<open>Quota.rebuild_cache\<close>\<close>

definition clear_cached_verdict :: "qobj \<Rightarrow> qobj" where
  "clear_cached_verdict q =
     q\<lparr>inst := (inst q)\<lparr>cached_availability_time := None,
                         cached_availability_number := None,
                         cached_availability_state := None\<rparr>\<rparr>"

definition rebuild_cache :: "datetime option \<Rightarrow> qobj \<Rightarrow> env \<Rightarrow> qobj \<times> env" where
  "rebuild_cache now_dt q e =
     (let (res, c, q1, e1) = availability now_dt True None False (clear_cached_verdict q) e
      in (q1, e1))"

subsection \<open>\<^verbatim>\<open>min(..., key=...)\<close> over verdicts\<close>

text \<open>
  The exceptions of \<^verbatim>\<open>check_quotas\<close>: the two it raises itself, the
  \<^verbatim>\<open>TypeError\<close> of Python 3 when \<^verbatim>\<open>min\<close> orders \<^verbatim>\<open>None\<close> against an integer, and
  the \<^verbatim>\<open>ValueError\<close> of \<^verbatim>\<open>min\<close> on an empty list.
\<close>

datatype error =
    TypeError_supply_subevent
  | ValueError_has_variations
  | TypeError_unorderable
  | ValueError_min_empty

text \<open>The key \<^verbatim>\<open>lambda s: (s[0], s[1] if s[1] is not None else sys.maxsize)\<close>.\<close>

definition sort_key :: "verdict \<Rightarrow> int option \<times> int" where
  "sort_key s = (fst s, case snd s of Some n \<Rightarrow> n | None \<Rightarrow> sys_maxsize)"

text \<open>
  \<^verbatim>\<open>a < b\<close> on two key tuples: the first components are compared for equality (which
  never raises); where they differ they are ordered, which raises when one is
  \<^verbatim>\<open>None\<close>.
\<close>

definition key_less :: "int option \<times> int \<Rightarrow> int option \<times> int \<Rightarrow> error + bool" where
  "key_less a b =
     (if fst a = fst b then Inr (snd a < snd b)
      else case (fst a, fst b) of
             (Some x, Some y) \<Rightarrow> Inr (x < y)
           | _ \<Rightarrow> Inl TypeError_unorderable)"

text \<open>
  The loop of the builtin \<^verbatim>\<open>min\<close>: the running minimum is replaced only by an item
  whose key is strictly less.
\<close>

fun min_loop :: "verdict \<Rightarrow> verdict list \<Rightarrow> error + verdict" where
  "min_loop best [] = Inr best"
| "min_loop best (v # vs) =
     (case key_less (sort_key v) (sort_key best) of
        Inl err \<Rightarrow> Inl err
      | Inr lt \<Rightarrow> min_loop (if lt then v else best) vs)"

definition py_min :: "verdict list \<Rightarrow> error + verdict" where
  "py_min vs = (case vs of [] \<Rightarrow> Inl ValueError_min_empty | v # rest \<Rightarrow> min_loop v rest)"

subsection \<open>\<^verbatim>\<open>Item.check_quotas\<close> and \<^verbatim>\<open>ItemVariation.check_quotas\<close>\<close>

text \<open>
  An item with what \<^verbatim>\<open>check_quotas\<close> reads of it: \<^verbatim>\<open>self.event.has_subevents\<close>,
  the cached property \<^verbatim>\<open>has_variations\<close>, the related manager \<^verbatim>\<open>self.quotas\<close>, and
  the attribute \<^verbatim>\<open>_subevent_quotas\<close> that the product list may have set.
\<close>

record item =
  event_has_subevents :: bool
  has_variations :: bool
  quotas :: "qobj list"
  subevent_quotas :: "qobj list option"

text \<open>
  A variation; \<open>var_item\<close> is \<^verbatim>\<open>self.item\<close>, read for \<^verbatim>\<open>self.item.event.has_subevents\<close>.
\<close>

record item_variation =
  var_item :: item
  var_quotas :: "qobj list"
  var_subevent_quotas :: "qobj list option"

text \<open>
  A Python \<^verbatim>\<open>set\<close> of model instances, as a list of its elements. Instances are equal
  when their primary keys are, and a set keeps the element it was given first. The list
  says which elements the set has, not in which order Python iterates them: that order
  comes from the hash table, and enters \<^verbatim>\<open>check_quotas\<close> below as the function
  \<open>set_order\<close>.
\<close>

fun py_set :: "qobj list \<Rightarrow> qobj list" where
  "py_set [] = []"
| "py_set (q # qs) = q # filter (\<lambda>r. pk (inst r) \<noteq> pk (inst q)) (py_set qs)"

definition set_minus :: "qobj list \<Rightarrow> qobj list \<Rightarrow> qobj list" where
  "set_minus qs ignored = filter (\<lambda>q. pk (inst q) \<notin> set (map (\<lambda>r. pk (inst r)) ignored)) qs"

text \<open>
  \<^verbatim>\<open>getattr(self, '_subevent_quotas', self.quotas.filter(subevent=subevent) if subevent
  else self.quotas.all())\<close>
\<close>

definition quotas_for :: "qobj list option \<Rightarrow> qobj list \<Rightarrow> nat option \<Rightarrow> qobj list" where
  "quotas_for attr related subev =
     (case attr of
        Some qs \<Rightarrow> qs
      | None \<Rightarrow>
          (case subev of
             Some se \<Rightarrow> filter (\<lambda>q. subevent (inst q) = Some se) related
           | None \<Rightarrow> related))"

text \<open>
  The list comprehension \<^verbatim>\<open>[q.availability(count_waitinglist=..., _cache=_cache) for q
  in check_quotas]\<close>: one dictionary and one environment go through all the calls.
\<close>

fun availabilities ::
  "bool \<Rightarrow> call_cache option \<Rightarrow> qobj list \<Rightarrow> env
     \<Rightarrow> verdict list \<times> call_cache option \<times> qobj list \<times> env" where
  "availabilities count_waitinglist c [] e = ([], c, [], e)"
| "availabilities count_waitinglist c (q # qs) e =
     (let (v, c1, q1, e1) = availability None count_waitinglist c False q e;
          (vs, c2, qs2, e2) = availabilities count_waitinglist c1 qs e1
      in (v # vs, c2, q1 # qs2, e2))"

text \<open>
  The last line of both methods: the verdicts of the quotas to check, and their
  minimum under the key.
\<close>

definition combine ::
  "bool \<Rightarrow> call_cache option \<Rightarrow> qobj list \<Rightarrow> env
     \<Rightarrow> (error + verdict) \<times> call_cache option \<times> qobj list \<times> env" where
  "combine count_waitinglist c check e =
     (let (vs, c1, qs1, e1) = availabilities count_waitinglist c check e
      in (py_min vs, c1, qs1, e1))"

text \<open>
  The result of both methods: the returned tuple or the exception, the dictionary, the
  quotas to check (as the calls leave them) and the environment.
  \<open>ignored_quotas\<close> is a list, empty for \<^verbatim>\<open>None\<close> (both are falsy); \<open>subev\<close> is the
  primary key of the subevent, or \<^verbatim>\<open>None\<close>. \<open>set_order\<close> gives, for the elements of
  the set \<^verbatim>\<open>check_quotas\<close>, the order in which the list comprehension iterates them.
\<close>

definition Item_check_quotas ::
  "(qobj list \<Rightarrow> qobj list) \<Rightarrow> item \<Rightarrow> qobj list \<Rightarrow> bool \<Rightarrow> nat option
     \<Rightarrow> call_cache option \<Rightarrow> env
     \<Rightarrow> (error + verdict) \<times> call_cache option \<times> qobj list \<times> env" where
  "Item_check_quotas set_order self ignored_quotas count_waitinglist subev c e =
     (let check0 = py_set (quotas_for (subevent_quotas self) (quotas self) subev)
      in if subev = None \<and> event_has_subevents self
         then (Inl TypeError_supply_subevent, c, check0, e)
         else
           let check1 = (if ignored_quotas \<noteq> [] then set_minus check0 (py_set ignored_quotas)
                         else check0)
           in if check1 = [] then (Inr (Some AVAILABILITY_OK, Some sys_maxsize), c, check1, e)
              else if has_variations self then (Inl ValueError_has_variations, c, check1, e)
              else combine count_waitinglist c (set_order check1) e)"

definition ItemVariation_check_quotas ::
  "(qobj list \<Rightarrow> qobj list) \<Rightarrow> item_variation \<Rightarrow> qobj list \<Rightarrow> bool \<Rightarrow> nat option
     \<Rightarrow> call_cache option \<Rightarrow> env
     \<Rightarrow> (error + verdict) \<times> call_cache option \<times> qobj list \<times> env" where
  "ItemVariation_check_quotas set_order self ignored_quotas count_waitinglist subev c e =
     (let check0 = py_set (quotas_for (var_subevent_quotas self) (var_quotas self) subev);
          check1 = (if ignored_quotas \<noteq> [] then set_minus check0 (py_set ignored_quotas)
                    else check0)
      in if subev = None \<and> event_has_subevents (var_item self)
         then (Inl TypeError_supply_subevent, c, check1, e)
         else if check1 = [] then (Inr (Some AVAILABILITY_OK, Some sys_maxsize), c, check1, e)
         else combine count_waitinglist c (set_order check1) e)"

subsection \<open>Notions used to state the properties\<close>

text \<open>
  The value of \<^verbatim>\<open>now_dt or now()\<close> and the environment after it.
\<close>

definition time_of :: "datetime option \<Rightarrow> env \<Rightarrow> datetime" where
  "time_of now_dt e = (case now_dt of Some t \<Rightarrow> t | None \<Rightarrow> clock e (ticks e))"

definition after_clock :: "datetime option \<Rightarrow> env \<Rightarrow> env" where
  "after_clock now_dt e = (case now_dt of Some t \<Rightarrow> e | None \<Rightarrow> e\<lparr>ticks := Suc (ticks e)\<rparr>)"

text \<open>
  The stored verdict of a quota is hot at time \<open>t\<close>: a time stamp is cached and \<open>t\<close>
  is less than 120 seconds after it.
\<close>

definition is_hot :: "datetime \<Rightarrow> qobj \<Rightarrow> bool" where
  "is_hot t q =
     (case cached_availability_time (inst q) of
        None \<Rightarrow> False
      | Some c \<Rightarrow> t - c < 120 * 1000000)"

text \<open>
  The condition of line 1007, with the clock read where \<^verbatim>\<open>cache_is_hot()\<close> reads it.
\<close>

definition serves_stored :: "bool \<Rightarrow> bool \<Rightarrow> qobj \<Rightarrow> env \<Rightarrow> bool" where
  "serves_stored allow_cache count_waitinglist q e =
     (allow_cache \<and> is_hot (clock e (ticks e)) q \<and> count_waitinglist)"

text \<open>
  The environment after line 1007: the clock has been read when \<^verbatim>\<open>allow_cache\<close> holds.
\<close>

definition first_env :: "bool \<Rightarrow> env \<Rightarrow> env" where
  "first_env allow_cache e = (if allow_cache then e\<lparr>ticks := Suc (ticks e)\<rparr> else e)"

text \<open>The components of what \<open>availability\<close> and \<open>check_quotas\<close> return.\<close>

definition result :: "'a \<times> 'b \<times> 'c \<times> 'd \<Rightarrow> 'a" where
  "result r = fst r"

definition cache_after :: "'a \<times> 'b \<times> 'c \<times> 'd \<Rightarrow> 'b" where
  "cache_after r = fst (snd r)"

definition quota_after :: "'a \<times> 'b \<times> 'c \<times> 'd \<Rightarrow> 'c" where
  "quota_after r = fst (snd (snd r))"

definition env_after :: "'a \<times> 'b \<times> 'c \<times> 'd \<Rightarrow> 'd" where
  "env_after r = snd (snd (snd r))"

text \<open>
  The quotas that \<^verbatim>\<open>check_quotas\<close> goes on to check: those selected, less the ignored
  ones.
\<close>

definition quotas_to_check ::
  "qobj list option \<Rightarrow> qobj list \<Rightarrow> nat option \<Rightarrow> qobj list \<Rightarrow> qobj list" where
  "quotas_to_check attr related subev ignored_quotas =
     (let check0 = py_set (quotas_for attr related subev)
      in if ignored_quotas \<noteq> [] then set_minus check0 (py_set ignored_quotas) else check0)"

text \<open>
  A verdict whose state is an integer, and a dictionary that holds such verdicts only
  (\<^verbatim>\<open>availability\<close> never stores another one).
\<close>

definition has_state :: "verdict \<Rightarrow> bool" where
  "has_state v = (fst v \<noteq> None)"

definition cache_ok :: "call_cache option \<Rightarrow> bool" where
  "cache_ok c =
     (case c of None \<Rightarrow> True | Some d \<Rightarrow> list_all (\<lambda>kv. has_state (snd kv)) (entries d))"

text \<open>
  The order that \<^verbatim>\<open>min\<close> follows in the code: \<open>r\<close> has a lower state than \<open>v\<close>, or
  the same state and a key count that is not larger, where the key of the source reads
  an unlimited count (\<^verbatim>\<open>None\<close>) as \<^verbatim>\<open>sys.maxsize\<close>.
\<close>

definition key_at_most :: "verdict \<Rightarrow> verdict \<Rightarrow> bool" where
  "key_at_most r v =
     (case (fst r, fst v) of
        (Some a, Some b) \<Rightarrow> a < b \<or> (a = b \<and> snd (sort_key r) \<le> snd (sort_key v))
      | _ \<Rightarrow> False)"

text \<open>
  The order in the words of the specification: \<open>r\<close> is at most as available as \<open>v\<close>
  when it has a lower state, or the same state and a count that is not larger, an
  unlimited count being larger than every finite count.
\<close>

definition count_at_most :: "int option \<Rightarrow> int option \<Rightarrow> bool" where
  "count_at_most n m =
     (case m of
        None \<Rightarrow> True
      | Some k \<Rightarrow> (case n of None \<Rightarrow> False | Some j \<Rightarrow> j \<le> k))"

definition at_most_as_available :: "verdict \<Rightarrow> verdict \<Rightarrow> bool" where
  "at_most_as_available r v =
     (case (fst r, fst v) of
        (Some a, Some b) \<Rightarrow> a < b \<or> (a = b \<and> count_at_most (snd r) (snd v))
      | _ \<Rightarrow> False)"

text \<open>A verdict whose count, when finite, is below \<^verbatim>\<open>sys.maxsize\<close>.\<close>

definition small_count :: "verdict \<Rightarrow> bool" where
  "small_count v = (case snd v of None \<Rightarrow> True | Some n \<Rightarrow> n < sys_maxsize)"

subsection \<open>Concrete quotas and environments\<close>

text \<open>
  A demand of 30 paid positions, 10 positions in carts and 5 waiting list entries; a
  quota of 100 and an unlimited quota over it, nothing cached; and an environment whose
  clock shows 1000, 1001, ... on successive readings.
\<close>

definition demand_30_10 :: demand where
  "demand_30_10 = \<lparr>paid_orders = 30, pending_orders = 0, blocking_vouchers = (\<lambda>t. 0),
     in_cart = (\<lambda>t. 10), waiting_list_pending = 5\<rparr>"

definition no_cached :: "nat \<Rightarrow> nat option \<Rightarrow> quota" where
  "no_cached k sz = \<lparr>pk = k, subevent = None, quota_size = sz,
     cached_availability_state = None, cached_availability_number = None,
     cached_availability_paid_orders = None, cached_availability_time = None\<rparr>"

definition empty_row :: quota_row where
  "empty_row = \<lparr>row_state = None, row_number = None, row_paid_orders = None, row_time = None\<rparr>"

definition quota_100 :: qobj where
  "quota_100 = \<lparr>inst = no_cached 1 (Some 100), stored = empty_row, dem = demand_30_10\<rparr>"

definition quota_unlimited :: qobj where
  "quota_unlimited = \<lparr>inst = no_cached 2 None, stored = empty_row, dem = demand_30_10\<rparr>"

definition env_1000 :: env where
  "env_1000 = \<lparr>item_quota_cache = True, clock = (\<lambda>n. 1000 + int n), ticks = 0, queries = [],
     computations = 0\<rparr>"

text \<open>
  The quota of 100 with a verdict cached at time 990; a dictionary holding a verdict for
  the quota of 100; and two successive calls of \<^verbatim>\<open>availability()\<close> with its default
  arguments.
\<close>

definition quota_cached :: qobj where
  "quota_cached =
     \<lparr>inst = (no_cached 1 (Some 100))
               \<lparr>cached_availability_state := Some AVAILABILITY_ORDERED,
                cached_availability_number := Some 0,
                cached_availability_time := Some 990\<rparr>,
      stored = \<lparr>row_state = Some AVAILABILITY_ORDERED, row_number = Some 0,
                 row_paid_orders = Some 30, row_time = Some 990\<rparr>,
      dem = demand_30_10\<rparr>"

definition cache_with_entry :: call_cache where
  "cache_with_entry =
     \<lparr>entries = [(1, (Some AVAILABILITY_RESERVED, Some 0))], count_waitinglist_key = Some True\<rparr>"

definition first_call :: "verdict \<times> call_cache option \<times> qobj \<times> env" where
  "first_call = availability None True None False quota_100 env_1000"

definition second_call :: "verdict \<times> call_cache option \<times> qobj \<times> env" where
  "second_call =
     availability None True None False (quota_after first_call) (env_after first_call)"

lemmas example_defs = demand_30_10_def no_cached_def empty_row_def quota_100_def
  quota_unlimited_def env_1000_def quota_cached_def cache_with_entry_def first_call_def
  second_call_def

lemmas run_defs = availability_def underscore_availability_def write_back_def cache_is_hot_def
  now_dt_or_now_def now_def cache_check_flag_def cache_lookup_def cache_store_def
  cache_truthy_def cache_get_count_waitinglist_def cache_clear_def count_paid_orders_def
  count_pending_orders_def count_blocking_vouchers_def count_in_cart_def
  count_waiting_list_pending_def issue_def Let_def set_cached_verdict_def set_paid_orders_def
  save_cached_fields_def clear_cached_verdict_def rebuild_cache_def result_def cache_after_def
  quota_after_def env_after_def

text \<open>
  A sold-out quota of 10 and an untouched quota of 50; an item and a variation under
  both; an item and a variation of an event series; an item that has variations.
\<close>

definition demand_sold_out :: demand where
  "demand_sold_out = \<lparr>paid_orders = 10, pending_orders = 0, blocking_vouchers = (\<lambda>t. 0),
     in_cart = (\<lambda>t. 0), waiting_list_pending = 0\<rparr>"

definition demand_none :: demand where
  "demand_none = \<lparr>paid_orders = 0, pending_orders = 0, blocking_vouchers = (\<lambda>t. 0),
     in_cart = (\<lambda>t. 0), waiting_list_pending = 0\<rparr>"

definition quota_sold_out :: qobj where
  "quota_sold_out = \<lparr>inst = no_cached 3 (Some 10), stored = empty_row, dem = demand_sold_out\<rparr>"

definition quota_50 :: qobj where
  "quota_50 = \<lparr>inst = no_cached 4 (Some 50), stored = empty_row, dem = demand_none\<rparr>"

definition item_two_quotas :: item where
  "item_two_quotas = \<lparr>event_has_subevents = False, has_variations = False,
     quotas = [quota_sold_out, quota_50], subevent_quotas = None\<rparr>"

definition variation_two_quotas :: item_variation where
  "variation_two_quotas = \<lparr>var_item = item_two_quotas, var_quotas = [quota_50, quota_sold_out],
     var_subevent_quotas = None\<rparr>"

definition item_of_series :: item where
  "item_of_series = \<lparr>event_has_subevents = True, has_variations = False,
     quotas = [quota_50], subevent_quotas = None\<rparr>"

definition variation_of_series :: item_variation where
  "variation_of_series = \<lparr>var_item = item_of_series, var_quotas = [quota_50],
     var_subevent_quotas = None\<rparr>"

definition item_with_variations :: item where
  "item_with_variations = \<lparr>event_has_subevents = False, has_variations = True,
     quotas = [quota_50], subevent_quotas = None\<rparr>"

text \<open>
  An item of an event series that has variations and no quota; a quota whose capacity
  is \<^verbatim>\<open>sys.maxsize + 1\<close>, and an item under it and under the unlimited quota; and the
  quota with the cached verdict after \<^verbatim>\<open>rebuild_cache()\<close>.
\<close>

definition item_of_series_with_variations :: item where
  "item_of_series_with_variations = \<lparr>event_has_subevents = True, has_variations = True,
     quotas = [], subevent_quotas = None\<rparr>"

definition quota_huge :: qobj where
  "quota_huge = \<lparr>inst = no_cached 5 (Some 9223372036854775808), stored = empty_row,
     dem = demand_none\<rparr>"

definition item_huge_and_unlimited :: item where
  "item_huge_and_unlimited = \<lparr>event_has_subevents = False, has_variations = False,
     quotas = [quota_huge, quota_unlimited], subevent_quotas = None\<rparr>"

text \<open>An iteration order: the elements as they are listed.\<close>

definition as_listed :: "qobj list \<Rightarrow> qobj list" where
  "as_listed qs = qs"

definition rebuilt :: "qobj \<times> env" where
  "rebuilt = rebuild_cache None quota_cached env_1000"

lemmas item_defs = demand_sold_out_def demand_none_def quota_sold_out_def quota_50_def
  item_two_quotas_def variation_two_quotas_def item_of_series_def variation_of_series_def
  item_with_variations_def item_of_series_with_variations_def quota_huge_def
  item_huge_and_unlimited_def rebuilt_def as_listed_def

lemmas check_defs = Item_check_quotas_def ItemVariation_check_quotas_def combine_def py_min_def
  key_less_def sort_key_def quotas_for_def set_minus_def quotas_to_check_def
  cache_ok_def has_state_def key_at_most_def at_most_as_available_def count_at_most_def
  small_count_def

section \<open>Properties\<close>

subsection \<open>Reading the clock\<close>

lemmas count_defs = count_paid_orders_def count_pending_orders_def
  count_blocking_vouchers_def count_in_cart_def count_waiting_list_pending_def issue_def

lemma now_dt_or_now_eq: "now_dt_or_now n e = (time_of n e, after_clock n e)"
  by (simp add: now_dt_or_now_def now_def time_of_def after_clock_def split: option.splits)

lemma cache_is_hot_eq: "cache_is_hot n q e = (is_hot (time_of n e) q, after_clock n e)"
  by (simp add: cache_is_hot_def now_dt_or_now_eq is_hot_def split: option.splits)

lemma after_clock_simps [simp]:
  "after_clock (Some t) e = e"
  "time_of (Some t) e = t"
  "queries (after_clock n e) = queries e"
  "computations (after_clock n e) = computations e"
  "item_quota_cache (after_clock n e) = item_quota_cache e"
  "clock (after_clock n e) = clock e"
  by (simp_all add: after_clock_def time_of_def split: option.splits)

lemma time_of_update [simp]:
  "time_of n (e\<lparr>computations := x\<rparr>) = time_of n e"
  "time_of n (e\<lparr>queries := y\<rparr>) = time_of n e"
  "time_of n (e\<lparr>item_quota_cache := z\<rparr>) = time_of n e"
  by (simp_all add: time_of_def split: option.splits)

lemma issue_simps [simp]:
  "queries (issue x e) = queries e @ [x]"
  "computations (issue x e) = computations e"
  "item_quota_cache (issue x e) = item_quota_cache e"
  "clock (issue x e) = clock e"
  "ticks (issue x e) = ticks e"
  by (simp_all add: issue_def)

lemma first_env_simps [simp]:
  "queries (first_env a e) = queries e"
  "computations (first_env a e) = computations e"
  "item_quota_cache (first_env a e) = item_quota_cache e"
  "clock (first_env a e) = clock e"
  "first_env False e = e"
  by (simp_all add: first_env_def)

subsection \<open>What \<open>underscore_availability\<close> leaves behind\<close>

lemma ua_unlimited:
  "quota_size (inst q) = None \<Longrightarrow>
   underscore_availability n cw q e =
     ((Some AVAILABILITY_OK, None), q, after_clock n (e\<lparr>computations := Suc (computations e)\<rparr>))"
  by (simp add: underscore_availability_def now_dt_or_now_eq)

lemma ua_computations:
  "computations (snd (snd (underscore_availability n cw q e))) = Suc (computations e)"
  by (simp add: underscore_availability_def now_dt_or_now_eq Let_def split_def count_defs
      split: option.splits)

lemma ua_quota:
  "fst (snd (underscore_availability n cw q e)) =
     (case quota_size (inst q) of
        None \<Rightarrow> q
      | Some sz \<Rightarrow> set_paid_orders (Some (int (paid_orders (dem q)))) q)"
  by (simp add: underscore_availability_def now_dt_or_now_eq Let_def split_def count_defs
      split: option.splits)

lemma ua_quota_fields [simp]:
  "quota_size (inst (fst (snd (underscore_availability n cw q e)))) = quota_size (inst q)"
  "pk (inst (fst (snd (underscore_availability n cw q e)))) = pk (inst q)"
  "cached_availability_state (inst (fst (snd (underscore_availability n cw q e))))
     = cached_availability_state (inst q)"
  "cached_availability_number (inst (fst (snd (underscore_availability n cw q e))))
     = cached_availability_number (inst q)"
  "cached_availability_time (inst (fst (snd (underscore_availability n cw q e))))
     = cached_availability_time (inst q)"
  "dem (fst (snd (underscore_availability n cw q e))) = dem q"
  "stored (fst (snd (underscore_availability n cw q e))) = stored q"
  by (simp_all add: ua_quota set_paid_orders_def split: option.splits)

lemma ua_paid_orders:
  "cached_availability_paid_orders (inst (fst (snd (underscore_availability n cw q e)))) =
     (case quota_size (inst q) of
        None \<Rightarrow> cached_availability_paid_orders (inst q)
      | Some sz \<Rightarrow> Some (int (paid_orders (dem q))))"
  by (simp add: ua_quota set_paid_orders_def split: option.splits)


lemma ua_number_le:
  "quota_size (inst q) = Some sz \<Longrightarrow>
   \<exists>k. snd (fst (underscore_availability n cw q e)) = Some k \<and> 0 \<le> k \<and> k \<le> int sz"
  by (simp add: underscore_availability_def now_dt_or_now_eq Let_def split_def count_defs
      split: option.splits)

lemma ua_frame:
  "item_quota_cache (snd (snd (underscore_availability n cw q e))) = item_quota_cache e"
  "clock (snd (snd (underscore_availability n cw q e))) = clock e"
  "ticks (snd (snd (underscore_availability n cw q e))) = ticks (after_clock n e)"
  by (simp_all add: underscore_availability_def now_dt_or_now_eq Let_def split_def count_defs
      after_clock_def split: option.splits)

lemma ua_queries_prefix:
  "\<exists>issued. queries (snd (snd (underscore_availability n cw q e))) = queries e @ issued \<and>
     (\<not> cw \<longrightarrow> CountWaitingListPending \<notin> set issued)"
  by (simp add: underscore_availability_def now_dt_or_now_eq Let_def split_def count_defs
      split: option.splits)

lemma is_hot_set_paid [simp]: "is_hot t (set_paid_orders v q) = is_hot t q"
  by (simp add: is_hot_def set_paid_orders_def)

lemma is_hot_ua [simp]: "is_hot t (fst (snd (underscore_availability n cw q e))) = is_hot t q"
  by (simp add: ua_quota split: option.splits)

subsection \<open>The three ways through \<open>availability\<close>\<close>

lemma write_back_eq:
  "write_back res t cw q e =
     (if cw \<and> \<not> is_hot t q
      then (save_cached_fields
              (case quota_size (inst q) of
                 None \<Rightarrow> set_paid_orders (Some (int (paid_orders (dem q))))
                           (set_cached_verdict res t q)
               | Some sz \<Rightarrow> set_cached_verdict res t q),
            case quota_size (inst q) of None \<Rightarrow> issue CountPaidOrders e | Some sz \<Rightarrow> e)
      else (q, e))"
  by (simp add: write_back_def cache_is_hot_eq Let_def split_def count_paid_orders_def
      set_cached_verdict_def set_paid_orders_def split: option.splits)

lemma availability_hit:
  "serves_stored ac cw q e \<Longrightarrow>
   availability n cw c ac q e =
     ((cached_availability_state (inst q), cached_availability_number (inst q)), c, q,
      e\<lparr>ticks := Suc (ticks e)\<rparr>)"
  by (simp add: availability_def serves_stored_def cache_is_hot_eq time_of_def after_clock_def)

lemma availability_call_cache:
  "\<not> serves_stored ac cw q e \<Longrightarrow>
   cache_lookup (cache_check_flag cw c) (pk (inst q)) = Some v \<Longrightarrow>
   availability n cw c ac q e = (v, cache_check_flag cw c, q, first_env ac e)"
  by (auto simp add: availability_def serves_stored_def cache_is_hot_eq time_of_def
      after_clock_def first_env_def)

lemma availability_miss:
  "\<not> serves_stored ac cw q e \<Longrightarrow>
   cache_lookup (cache_check_flag cw c) (pk (inst q)) = None \<Longrightarrow>
   availability n cw c ac q e =
     (let e1 = first_env ac e;
          t = time_of n e1;
          r = underscore_availability (Some t) cw q (after_clock n e1);
          w = write_back (fst r) t cw (fst (snd r)) ((snd (snd r))\<lparr>item_quota_cache := False\<rparr>)
      in (fst r, map_option (cache_store (pk (inst q)) (fst r) cw) (cache_check_flag cw c),
          fst w, snd w))"
  by (cases n; cases ac)
     (auto simp add: availability_def serves_stored_def cache_is_hot_eq time_of_def
       after_clock_def first_env_def now_dt_or_now_eq Let_def split_def)

lemma availability_queries_no_waitinglist:
  "\<exists>issued. queries (env_after (availability n False c ac q e)) = queries e @ issued
      \<and> CountWaitingListPending \<notin> set issued"
proof (cases "cache_lookup (cache_check_flag False c) (pk (inst q))")
  case None
  have ns: "\<not> serves_stored ac False q e" by (simp add: serves_stored_def)
  obtain issued where i: "queries (snd (snd (underscore_availability (Some (time_of n (first_env ac e))) False q
       (after_clock n (first_env ac e))))) = queries e @ issued" "CountWaitingListPending \<notin> set issued"
    using ua_queries_prefix [of "Some (time_of n (first_env ac e))" False q "after_clock n (first_env ac e)"]
    by auto
  show ?thesis
    using i by (simp add: availability_miss [OF ns None] env_after_def Let_def write_back_eq)
next
  case (Some v)
  have ns: "\<not> serves_stored ac False q e" by (simp add: serves_stored_def)
  show ?thesis by (simp add: availability_call_cache [OF ns Some] env_after_def)
qed

subsection \<open>\<open>rebuild_cache\<close> in closed form\<close>

lemma ua_ignores_cached:
  "quota_size (inst q') = quota_size (inst q) \<Longrightarrow> dem q' = dem q \<Longrightarrow>
   fst (underscore_availability n cw q' e) = fst (underscore_availability n cw q e)
   \<and> snd (snd (underscore_availability n cw q' e)) = snd (snd (underscore_availability n cw q e))"
  by (simp add: underscore_availability_def now_dt_or_now_eq Let_def split_def count_defs
      set_paid_orders_def split: option.splits)

lemma rebuild_cache_eq:
  "rebuild_cache n q e =
     (let t = time_of n e;
          r = underscore_availability (Some t) True q (after_clock n e);
          res = fst r
      in (q\<lparr>inst := (inst q)\<lparr>cached_availability_state := fst res,
                             cached_availability_number := snd res,
                             cached_availability_time := Some t,
                             cached_availability_paid_orders := Some (int (paid_orders (dem q)))\<rparr>,
            stored := \<lparr>row_state = fst res, row_number = snd res,
                        row_paid_orders = Some (int (paid_orders (dem q))), row_time = Some t\<rparr>\<rparr>,
          case quota_size (inst q) of
            None \<Rightarrow> issue CountPaidOrders ((snd (snd r))\<lparr>item_quota_cache := False\<rparr>)
          | Some sz \<Rightarrow> (snd (snd r))\<lparr>item_quota_cache := False\<rparr>))"
proof -
  let ?q = "clear_cached_verdict q"
  have ns: "\<not> serves_stored False True ?q e" by (simp add: serves_stored_def)
  have lk: "cache_lookup (cache_check_flag True None) (pk (inst ?q)) = None"
    by (simp add: cache_lookup_def cache_check_flag_def)
  have cold: "\<not> is_hot t ?q" for t by (simp add: is_hot_def clear_cached_verdict_def)
  have same: "quota_size (inst ?q) = quota_size (inst q)" "dem ?q = dem q"
    by (simp_all add: clear_cached_verdict_def)
  note ig = ua_ignores_cached [OF same]
  show ?thesis
    unfolding rebuild_cache_def availability_miss [OF ns lk]
    by (cases "quota_size (inst q)")
       (simp_all add: Let_def write_back_eq cold ig same ua_quota save_cached_fields_def
          set_cached_verdict_def set_paid_orders_def, simp_all add: clear_cached_verdict_def is_hot_def)
qed

lemma is_hot_mono: "t1 \<le> t2 \<Longrightarrow> is_hot t2 q \<Longrightarrow> is_hot t1 q"
  by (auto simp add: is_hot_def split: option.splits)

subsection \<open>The minimum under the key, and \<open>check_quotas\<close>\<close>








lemma min_loop_error:
  "min_loop best vs = Inl err \<Longrightarrow> err = TypeError_unorderable"
  by (induction vs arbitrary: best)
     (auto simp add: key_less_def split: sum.splits if_splits option.splits)

lemma py_min_error:
  "py_min vs = Inl err \<Longrightarrow> err = TypeError_unorderable \<or> err = ValueError_min_empty"
  by (auto simp add: py_min_def split: list.splits dest: min_loop_error)









lemma combine_error:
  "result (combine cw c qs e) \<noteq> Inl ValueError_has_variations"
  "result (combine cw c qs e) \<noteq> Inl TypeError_supply_subevent"
  using py_min_error [of "fst (availabilities cw c qs e)"]
  by (auto simp add: combine_def result_def split_def Let_def)

lemma Item_check_quotas_eq:
  "Item_check_quotas set_order it ign cw subev c e =
     (let check = quotas_to_check (subevent_quotas it) (quotas it) subev ign
      in if subev = None \<and> event_has_subevents it
         then (Inl TypeError_supply_subevent, c,
               py_set (quotas_for (subevent_quotas it) (quotas it) subev), e)
         else if check = [] then (Inr (Some AVAILABILITY_OK, Some sys_maxsize), c, check, e)
         else if has_variations it then (Inl ValueError_has_variations, c, check, e)
         else combine cw c (set_order check) e)"
  by (simp add: Item_check_quotas_def quotas_to_check_def Let_def)

lemma ItemVariation_check_quotas_eq:
  "ItemVariation_check_quotas set_order var ign cw subev c e =
     (let check = quotas_to_check (var_subevent_quotas var) (var_quotas var) subev ign
      in if subev = None \<and> event_has_subevents (var_item var)
         then (Inl TypeError_supply_subevent, c, check, e)
         else if check = [] then (Inr (Some AVAILABILITY_OK, Some sys_maxsize), c, check, e)
         else combine cw c (set_order check) e)"
  by (simp add: ItemVariation_check_quotas_def quotas_to_check_def Let_def)

section \<open>The claims\<close>

lemmas state_defs = AVAILABILITY_GONE_def AVAILABILITY_ORDERED_def AVAILABILITY_RESERVED_def
  AVAILABILITY_OK_def

text \<open>
  C1. For a quota of finite capacity \<open>C\<close> and demand counts paid \<open>p\<close>, pending \<open>r\<close>,
  blocking vouchers \<open>b\<close>, cart positions \<open>c\<close> and waiting list \<open>w\<close>,
  \<^verbatim>\<open>_availability\<close> subtracts them in this order and returns at the first step where
  the remainder is zero or below: \<open>(GONE, 0)\<close> if \<open>C \<le> p\<close>; \<open>(ORDERED, 0)\<close> if
  \<open>p < C \<le> p + r\<close>; \<open>(RESERVED, 0)\<close> if \<open>p + r < C \<le> p + r + b\<close>, likewise for \<open>c\<close>, and
  for \<open>w\<close> when the waiting list is counted; otherwise \<open>(OK, C - p - r - b - c - w)\<close>
  (without \<open>w\<close> when the waiting list is not counted), a positive number. The count
  queries it issues are exactly those up to the step where it returns, in that order.
\<close>

theorem availability_priority_order:
  assumes "quota_size (inst q) = Some C"
  shows "(let t = time_of now_dt e;
              p = int (paid_orders (dem q));
              r = int (pending_orders (dem q));
              b = int (blocking_vouchers (dem q) t);
              c = int (in_cart (dem q) t);
              w = int (waiting_list_pending (dem q));
              out = underscore_availability now_dt count_waitinglist q e
          in fst out =
               (if int C \<le> p then (Some AVAILABILITY_GONE, Some 0)
                else if int C \<le> p + r then (Some AVAILABILITY_ORDERED, Some 0)
                else if int C \<le> p + r + b then (Some AVAILABILITY_RESERVED, Some 0)
                else if int C \<le> p + r + b + c then (Some AVAILABILITY_RESERVED, Some 0)
                else if count_waitinglist \<and> int C \<le> p + r + b + c + w
                  then (Some AVAILABILITY_RESERVED, Some 0)
                else (Some AVAILABILITY_OK,
                      Some (int C - p - r - b - c - (if count_waitinglist then w else 0))))
           \<and> queries (snd (snd out)) = queries e @
               take (if int C \<le> p then 1
                     else if int C \<le> p + r then 2
                     else if int C \<le> p + r + b then 3
                     else if int C \<le> p + r + b + c then 4
                     else if count_waitinglist then 5 else 4)
                 [CountPaidOrders, CountPendingOrders, CountBlockingVouchers t, CountInCart t,
                  CountWaitingListPending]
           \<and> (fst (fst out) = Some AVAILABILITY_OK \<longrightarrow> (\<exists>k. snd (fst out) = Some k \<and> 0 < k)))"
  using assms
  by (simp add: underscore_availability_def now_dt_or_now_eq Let_def split_def count_defs
      set_paid_orders_def state_defs)

theorem availability_priority_order_witness:
  "quota_size (inst quota_100) = Some 100
   \<and> fst (underscore_availability None True quota_100 env_1000) = (Some AVAILABILITY_OK, Some 55)
   \<and> fst (underscore_availability None False quota_100 env_1000) = (Some AVAILABILITY_OK, Some 60)
   \<and> queries (snd (snd (underscore_availability None True quota_100 env_1000))) =
       [CountPaidOrders, CountPendingOrders, CountBlockingVouchers 1000, CountInCart 1000,
        CountWaitingListPending]"
  using availability_priority_order [of quota_100 100 None env_1000 True]
        availability_priority_order [of quota_100 100 None env_1000 False]
  by (simp add: example_defs time_of_def Let_def)

text \<open>
  C2 (as amended). For a quota of unlimited capacity, \<^verbatim>\<open>_availability\<close> returns
  \<open>(OK, None)\<close> whatever the demand and issues no count query. \<^verbatim>\<open>availability\<close>,
  when it computes (it serves neither the stored verdict nor an entry of \<^verbatim>\<open>_cache\<close>),
  returns that verdict, and the only count query it issues is one count of the paid
  orders, issued exactly when it writes the verdict back: the waiting list is counted
  and the stored verdict is not hot at \<^verbatim>\<open>now_dt\<close>.
\<close>

theorem unlimited_quota_verdict:
  assumes "quota_size (inst q) = None"
  shows "fst (underscore_availability now_dt count_waitinglist q e) = (Some AVAILABILITY_OK, None)
         \<and> queries (snd (snd (underscore_availability now_dt count_waitinglist q e))) = queries e
         \<and> (\<not> serves_stored allow_cache count_waitinglist q e
              \<and> cache_lookup (cache_check_flag count_waitinglist cache) (pk (inst q)) = None
            \<longrightarrow> result (availability now_dt count_waitinglist cache allow_cache q e)
                  = (Some AVAILABILITY_OK, None)
                \<and> queries (env_after (availability now_dt count_waitinglist cache allow_cache q e))
                  = queries e @
                    (if count_waitinglist \<and> \<not> is_hot (time_of now_dt (first_env allow_cache e)) q
                     then [CountPaidOrders] else []))"
  using assms
  by (auto simp add: ua_unlimited availability_miss Let_def result_def env_after_def write_back_eq issue_def)

theorem unlimited_quota_verdict_witness:
  "quota_size (inst quota_unlimited) = None
   \<and> fst (underscore_availability None True quota_unlimited env_1000) = (Some AVAILABILITY_OK, None)
   \<and> queries (snd (snd (underscore_availability None True quota_unlimited env_1000))) = []
   \<and> result (availability None False None False quota_unlimited env_1000) = (Some AVAILABILITY_OK, None)
   \<and> queries (env_after (availability None False None False quota_unlimited env_1000)) = []"
  using unlimited_quota_verdict [of quota_unlimited None True env_1000]
        unlimited_quota_verdict [of quota_unlimited None False env_1000 False None]
  by (simp add: example_defs serves_stored_def cache_lookup_def cache_check_flag_def)

text \<open>
  The claim as stated fails: a call of \<^verbatim>\<open>availability()\<close> with its default arguments on
  the unlimited quota, nothing cached, returns \<open>(OK, None)\<close> and has issued the count of
  the paid orders.
\<close>

theorem unlimited_quota_counts_paid_orders:
  "quota_size (inst quota_unlimited) = None
   \<and> queries env_1000 = []
   \<and> result (availability None True None False quota_unlimited env_1000) = (Some AVAILABILITY_OK, None)
   \<and> queries (env_after (availability None True None False quota_unlimited env_1000)) = [CountPaidOrders]"
  by (simp add: example_defs run_defs)




text \<open>
  C4 (as amended). \<^verbatim>\<open>availability\<close> returns the stored verdict, computing and querying
  nothing, when the caller allows the cache, the call counts the waiting list, and a time
  stamp is cached such that the clock reads less than 120 seconds more than it.
  Otherwise, when \<^verbatim>\<open>_cache\<close> (emptied first if it was filled under the other flag) holds
  an entry for the quota, that entry is returned, again without computing. In every
  remaining case \<^verbatim>\<open>_availability\<close> runs exactly once and its verdict is returned.
\<close>

theorem availability_three_ways:
  "(serves_stored allow_cache count_waitinglist q e =
      (allow_cache \<and> count_waitinglist
       \<and> (\<exists>t. cached_availability_time (inst q) = Some t \<and> clock e (ticks e) - t < 120 * 1000000)))
   \<and> (serves_stored allow_cache count_waitinglist q e \<longrightarrow>
        result (availability now_dt count_waitinglist cache allow_cache q e)
          = (cached_availability_state (inst q), cached_availability_number (inst q))
        \<and> computations (env_after (availability now_dt count_waitinglist cache allow_cache q e))
          = computations e
        \<and> queries (env_after (availability now_dt count_waitinglist cache allow_cache q e))
          = queries e
        \<and> quota_after (availability now_dt count_waitinglist cache allow_cache q e) = q)
   \<and> (\<not> serves_stored allow_cache count_waitinglist q e
        \<and> cache_lookup (cache_check_flag count_waitinglist cache) (pk (inst q)) = Some v \<longrightarrow>
        result (availability now_dt count_waitinglist cache allow_cache q e) = v
        \<and> computations (env_after (availability now_dt count_waitinglist cache allow_cache q e))
          = computations e
        \<and> queries (env_after (availability now_dt count_waitinglist cache allow_cache q e))
          = queries e
        \<and> quota_after (availability now_dt count_waitinglist cache allow_cache q e) = q)
   \<and> (\<not> serves_stored allow_cache count_waitinglist q e
        \<and> cache_lookup (cache_check_flag count_waitinglist cache) (pk (inst q)) = None \<longrightarrow>
        result (availability now_dt count_waitinglist cache allow_cache q e)
          = fst (underscore_availability (Some (time_of now_dt (first_env allow_cache e)))
                  count_waitinglist q (after_clock now_dt (first_env allow_cache e)))
        \<and> computations (env_after (availability now_dt count_waitinglist cache allow_cache q e))
          = Suc (computations e))"
proof (intro conjI impI)
  show "serves_stored allow_cache count_waitinglist q e =
      (allow_cache \<and> count_waitinglist
       \<and> (\<exists>t. cached_availability_time (inst q) = Some t \<and> clock e (ticks e) - t < 120 * 1000000))"
    by (auto simp add: serves_stored_def is_hot_def split: option.splits)
qed (simp_all add: availability_hit availability_call_cache availability_miss result_def
      env_after_def quota_after_def Let_def write_back_eq ua_computations split: option.splits)


theorem availability_three_ways_witness:
  "serves_stored True True quota_cached env_1000
   \<and> result (availability None True None True quota_cached env_1000) = (Some AVAILABILITY_ORDERED, Some 0)
   \<and> computations (env_after (availability None True None True quota_cached env_1000)) = 0
   \<and> \<not> serves_stored False True quota_100 env_1000
   \<and> cache_lookup (cache_check_flag True None) (pk (inst quota_100)) = None
   \<and> result (availability None True None False quota_100 env_1000) = (Some AVAILABILITY_OK, Some 55)
   \<and> computations (env_after (availability None True None False quota_100 env_1000)) = 1
   \<and> cache_lookup (cache_check_flag True (Some cache_with_entry)) (pk (inst quota_100))
       = Some (Some AVAILABILITY_RESERVED, Some 0)
   \<and> result (availability None True (Some cache_with_entry) False quota_100 env_1000)
       = (Some AVAILABILITY_RESERVED, Some 0)"
  using availability_three_ways [where allow_cache = True and count_waitinglist = True
          and q = quota_cached and e = env_1000 and now_dt = None and cache = None]
        availability_three_ways [where allow_cache = False and count_waitinglist = True
          and q = quota_100 and e = env_1000 and now_dt = None and cache = None]
        availability_three_ways [where allow_cache = False and count_waitinglist = True
          and q = quota_100 and e = env_1000 and now_dt = None and cache = "Some cache_with_entry"
          and v = "(Some AVAILABILITY_RESERVED, Some 0)"]
  by (simp add: example_defs run_defs serves_stored_def is_hot_def time_of_def after_clock_def first_env_def)

text \<open>
  The claim as stated fails: with \<^verbatim>\<open>allow_cache=False\<close> and a \<^verbatim>\<open>_cache\<close> that holds
  \<open>(RESERVED, 0)\<close> for the quota, the call returns that entry and computes nothing,
  where a computation would return \<open>(OK, 55)\<close>.
\<close>

theorem call_cache_entry_served_without_computation:
  "\<not> serves_stored False True quota_100 env_1000
   \<and> result (availability None True (Some cache_with_entry) False quota_100 env_1000)
       = (Some AVAILABILITY_RESERVED, Some 0)
   \<and> computations (env_after (availability None True (Some cache_with_entry) False quota_100 env_1000))
       = computations env_1000
   \<and> queries (env_after (availability None True (Some cache_with_entry) False quota_100 env_1000)) = []
   \<and> fst (underscore_availability None True quota_100 env_1000) = (Some AVAILABILITY_OK, Some 55)"
  by (simp add: example_defs run_defs serves_stored_def)

text \<open>
  C5. When \<^verbatim>\<open>availability\<close> computes, the verdict's state and count and the time
  \<^verbatim>\<open>now_dt\<close> are written to the instance and to its row, together with the count of
  paid orders, exactly when the call counts the waiting list and the stored verdict is
  not hot at \<^verbatim>\<open>now_dt\<close>; otherwise the row, and the three attributes of the instance,
  are as before. When the stored verdict or an entry of \<^verbatim>\<open>_cache\<close> is served, the
  quota is untouched.
\<close>

theorem write_back_only_when_waitlist_and_cold:
  "(\<not> serves_stored allow_cache count_waitinglist q e
      \<and> cache_lookup (cache_check_flag count_waitinglist cache) (pk (inst q)) = None \<longrightarrow>
      (let t = time_of now_dt (first_env allow_cache e);
           out = availability now_dt count_waitinglist cache allow_cache q e;
           q' = quota_after out
       in if count_waitinglist \<and> \<not> is_hot t q
          then stored q' = \<lparr>row_state = fst (result out), row_number = snd (result out),
                            row_paid_orders = Some (int (paid_orders (dem q))), row_time = Some t\<rparr>
               \<and> cached_availability_state (inst q') = fst (result out)
               \<and> cached_availability_number (inst q') = snd (result out)
               \<and> cached_availability_time (inst q') = Some t
               \<and> cached_availability_paid_orders (inst q') = Some (int (paid_orders (dem q)))
          else stored q' = stored q
               \<and> cached_availability_state (inst q') = cached_availability_state (inst q)
               \<and> cached_availability_number (inst q') = cached_availability_number (inst q)
               \<and> cached_availability_time (inst q') = cached_availability_time (inst q)))
   \<and> (serves_stored allow_cache count_waitinglist q e
        \<or> cache_lookup (cache_check_flag count_waitinglist cache) (pk (inst q)) = Some v \<longrightarrow>
        quota_after (availability now_dt count_waitinglist cache allow_cache q e) = q)"
proof (intro conjI impI)
  assume "serves_stored allow_cache count_waitinglist q e
        \<or> cache_lookup (cache_check_flag count_waitinglist cache) (pk (inst q)) = Some v"
  then show "quota_after (availability now_dt count_waitinglist cache allow_cache q e) = q"
    by (cases "serves_stored allow_cache count_waitinglist q e")
       (simp_all add: availability_hit availability_call_cache quota_after_def)
next
  assume a: "\<not> serves_stored allow_cache count_waitinglist q e
      \<and> cache_lookup (cache_check_flag count_waitinglist cache) (pk (inst q)) = None"
  then show "(let t = time_of now_dt (first_env allow_cache e);
           out = availability now_dt count_waitinglist cache allow_cache q e;
           q' = quota_after out
       in if count_waitinglist \<and> \<not> is_hot t q
          then stored q' = \<lparr>row_state = fst (result out), row_number = snd (result out),
                            row_paid_orders = Some (int (paid_orders (dem q))), row_time = Some t\<rparr>
               \<and> cached_availability_state (inst q') = fst (result out)
               \<and> cached_availability_number (inst q') = snd (result out)
               \<and> cached_availability_time (inst q') = Some t
               \<and> cached_availability_paid_orders (inst q') = Some (int (paid_orders (dem q)))
          else stored q' = stored q
               \<and> cached_availability_state (inst q') = cached_availability_state (inst q)
               \<and> cached_availability_number (inst q') = cached_availability_number (inst q)
               \<and> cached_availability_time (inst q') = cached_availability_time (inst q))"
    by (simp add: availability_miss Let_def result_def quota_after_def write_back_eq
        save_cached_fields_def set_cached_verdict_def set_paid_orders_def ua_paid_orders
        split: option.splits)
qed

theorem write_back_only_when_waitlist_and_cold_witness:
  "\<not> serves_stored False True quota_100 env_1000
   \<and> cache_lookup (cache_check_flag True None) (pk (inst quota_100)) = None
   \<and> stored (quota_after (availability None True None False quota_100 env_1000))
       = \<lparr>row_state = Some AVAILABILITY_OK, row_number = Some 55, row_paid_orders = Some 30,
          row_time = Some 1000\<rparr>
   \<and> stored (quota_after (availability None False None False quota_100 env_1000)) = stored quota_100
   \<and> stored (quota_after (availability None True None False quota_cached env_1000)) = stored quota_cached
   \<and> serves_stored True True quota_cached env_1000
   \<and> quota_after (availability None True None True quota_cached env_1000) = quota_cached"
  using write_back_only_when_waitlist_and_cold [where allow_cache = False
          and count_waitinglist = True and q = quota_100 and e = env_1000 and now_dt = None
          and cache = None]
        write_back_only_when_waitlist_and_cold [where allow_cache = False
          and count_waitinglist = False and q = quota_100 and e = env_1000 and now_dt = None
          and cache = None]
        write_back_only_when_waitlist_and_cold [where allow_cache = False
          and count_waitinglist = True and q = quota_cached and e = env_1000 and now_dt = None
          and cache = None]
        write_back_only_when_waitlist_and_cold [where allow_cache = True
          and count_waitinglist = True and q = quota_cached and e = env_1000 and now_dt = None
          and cache = None]
  by (simp add: example_defs run_defs serves_stored_def is_hot_def time_of_def after_clock_def first_env_def)

text \<open>
  C6 (as amended). \<^verbatim>\<open>rebuild_cache\<close> clears the cached state, count and time stamp and
  recomputes: \<^verbatim>\<open>_availability\<close> runs once, and the instance and its row then hold the
  fresh verdict and the time of the computation, whatever was cached before. A call of
  \<^verbatim>\<open>availability\<close> that follows and is given no \<^verbatim>\<open>_cache\<close> never returns a value cached
  before \<^verbatim>\<open>rebuild_cache\<close>: it returns the verdict \<^verbatim>\<open>rebuild_cache\<close> has just computed when
  it serves the stored verdict, and computes anew otherwise; with its default arguments
  it always computes anew.
\<close>

theorem rebuild_cache_recomputes:
  "(let t = time_of now_dt e;
        res = fst (underscore_availability (Some t) True q (after_clock now_dt e));
        q' = fst (rebuild_cache now_dt q e);
        e' = (snd (rebuild_cache now_dt q e))\<lparr>ticks := k\<rparr>;
        fresh = (\<lambda>allow_cache.
                   fst (underscore_availability
                          (Some (time_of later_dt (first_env allow_cache e')))
                          count_waitinglist q' (after_clock later_dt (first_env allow_cache e'))))
    in computations (snd (rebuild_cache now_dt q e)) = Suc (computations e)
       \<and> cached_availability_state (inst q') = fst res
       \<and> cached_availability_number (inst q') = snd res
       \<and> cached_availability_time (inst q') = Some t
       \<and> stored q' = \<lparr>row_state = fst res, row_number = snd res,
                        row_paid_orders = Some (int (paid_orders (dem q))), row_time = Some t\<rparr>
       \<and> result (availability later_dt count_waitinglist None allow_cache q' e')
           = (if serves_stored allow_cache count_waitinglist q' e' then res
              else fresh allow_cache)
       \<and> computations (env_after (availability later_dt count_waitinglist None allow_cache q' e'))
           = (if serves_stored allow_cache count_waitinglist q' e' then Suc (computations e)
              else Suc (Suc (computations e)))
       \<and> result (availability later_dt count_waitinglist None False q' e') = fresh False
       \<and> computations (env_after (availability later_dt count_waitinglist None False q' e'))
           = Suc (Suc (computations e)))
   \<and> rebuild_cache now_dt
         (q\<lparr>inst := (inst q)\<lparr>cached_availability_state := s0,
                               cached_availability_number := n0,
                               cached_availability_time := t0,
                               cached_availability_paid_orders := p0\<rparr>,
            stored := r0\<rparr>) e
       = rebuild_cache now_dt q e"
proof (intro conjI)
  let ?q0 = "q\<lparr>inst := (inst q)\<lparr>cached_availability_state := s0,
                               cached_availability_number := n0,
                               cached_availability_time := t0,
                               cached_availability_paid_orders := p0\<rparr>,
            stored := r0\<rparr>"
  have same: "quota_size (inst ?q0) = quota_size (inst q)" "dem ?q0 = dem q" by simp_all
  have ig: "fst (underscore_availability n cw ?q0 e1) = fst (underscore_availability n cw q e1)"
    "snd (snd (underscore_availability n cw ?q0 e1)) = snd (snd (underscore_availability n cw q e1))"
    for n cw e1
    using ua_ignores_cached [OF same, of n cw e1] by simp_all
  show "rebuild_cache now_dt ?q0 e = rebuild_cache now_dt q e"
    by (cases "quota_size (inst q)") (simp_all add: rebuild_cache_eq Let_def ig)
next
  let ?t = "time_of now_dt e"
  let ?res = "fst (underscore_availability (Some ?t) True q (after_clock now_dt e))"
  let ?q' = "fst (rebuild_cache now_dt q e)"
  let ?e' = "(snd (rebuild_cache now_dt q e))\<lparr>ticks := k\<rparr>"
  let ?fresh = "\<lambda>allow_cache.
                   fst (underscore_availability
                          (Some (time_of later_dt (first_env allow_cache ?e')))
                          count_waitinglist ?q' (after_clock later_dt (first_env allow_cache ?e')))"
  have q': "cached_availability_state (inst ?q') = fst ?res"
    "cached_availability_number (inst ?q') = snd ?res"
    "cached_availability_time (inst ?q') = Some ?t"
    "stored ?q' = \<lparr>row_state = fst ?res, row_number = snd ?res,
                        row_paid_orders = Some (int (paid_orders (dem q))), row_time = Some ?t\<rparr>"
    by (simp_all add: rebuild_cache_eq Let_def)
  have comp: "computations (snd (rebuild_cache now_dt q e)) = Suc (computations e)"
    by (simp add: rebuild_cache_eq Let_def ua_computations split: option.splits)
  have comp': "computations ?e' = Suc (computations e)" using comp by simp
  have lk: "cache_lookup (cache_check_flag count_waitinglist None) (pk (inst ?q')) = None"
    by (simp add: cache_lookup_def cache_check_flag_def)
  have later: "result (availability later_dt count_waitinglist None ac ?q' ?e')
           = (if serves_stored ac count_waitinglist ?q' ?e' then ?res else ?fresh ac)
         \<and> computations (env_after (availability later_dt count_waitinglist None ac ?q' ?e'))
           = (if serves_stored ac count_waitinglist ?q' ?e' then Suc (computations e)
              else Suc (Suc (computations e)))" for ac
  proof (cases "serves_stored ac count_waitinglist ?q' ?e'")
    case True
    then show ?thesis
      using comp by (simp add: availability_hit result_def env_after_def q')
  next
    case False
    then show ?thesis
      using availability_miss [OF False lk, of later_dt] comp'
      by (simp add: result_def env_after_def Let_def write_back_eq ua_computations
          split: option.splits)
  qed
  have ns: "\<not> serves_stored False count_waitinglist ?q' ?e'" by (simp add: serves_stored_def)
  show "(let t = time_of now_dt e;
        res = fst (underscore_availability (Some t) True q (after_clock now_dt e));
        q' = fst (rebuild_cache now_dt q e);
        e' = (snd (rebuild_cache now_dt q e))\<lparr>ticks := k\<rparr>;
        fresh = (\<lambda>allow_cache.
                   fst (underscore_availability
                          (Some (time_of later_dt (first_env allow_cache e')))
                          count_waitinglist q' (after_clock later_dt (first_env allow_cache e'))))
    in computations (snd (rebuild_cache now_dt q e)) = Suc (computations e)
       \<and> cached_availability_state (inst q') = fst res
       \<and> cached_availability_number (inst q') = snd res
       \<and> cached_availability_time (inst q') = Some t
       \<and> stored q' = \<lparr>row_state = fst res, row_number = snd res,
                        row_paid_orders = Some (int (paid_orders (dem q))), row_time = Some t\<rparr>
       \<and> result (availability later_dt count_waitinglist None allow_cache q' e')
           = (if serves_stored allow_cache count_waitinglist q' e' then res
              else fresh allow_cache)
       \<and> computations (env_after (availability later_dt count_waitinglist None allow_cache q' e'))
           = (if serves_stored allow_cache count_waitinglist q' e' then Suc (computations e)
              else Suc (Suc (computations e)))
       \<and> result (availability later_dt count_waitinglist None False q' e') = fresh False
       \<and> computations (env_after (availability later_dt count_waitinglist None False q' e'))
           = Suc (Suc (computations e)))"
    unfolding Let_def
    using q' comp later [of allow_cache] later [of False] ns by simp
qed

text \<open>
  The claim as stated fails: after \<^verbatim>\<open>rebuild_cache()\<close> has computed and stored
  \<open>(OK, 55)\<close>, a call of \<^verbatim>\<open>availability\<close> that is given a \<^verbatim>\<open>_cache\<close> holding
  \<open>(RESERVED, 0)\<close> for the quota returns that entry, filled before, and computes
  nothing.
\<close>

theorem call_cache_entry_served_after_rebuild:
  "cached_availability_state (inst quota_cached) = Some AVAILABILITY_ORDERED
   \<and> cached_availability_state (inst (fst rebuilt)) = Some AVAILABILITY_OK
   \<and> cached_availability_number (inst (fst rebuilt)) = Some 55
   \<and> computations (snd rebuilt) = 1
   \<and> result (availability None True (Some cache_with_entry) False (fst rebuilt) (snd rebuilt))
       = (Some AVAILABILITY_RESERVED, Some 0)
   \<and> computations (env_after (availability None True (Some cache_with_entry) False (fst rebuilt)
         (snd rebuilt)))
       = 1"
  by (simp add: item_defs example_defs run_defs)

text \<open>
  C7 (as amended). Take two calls of \<^verbatim>\<open>availability\<close> that allow the cache, count the
  waiting list and pass no \<^verbatim>\<open>_cache\<close>, the first without \<^verbatim>\<open>now_dt\<close>. If the clock does
  not go back between the two readings of the first call, and the second call reads the
  clock less than 120 seconds after the time stamp the quota holds after the first,
  then the two calls return the same verdict, the second call computes nothing and
  issues no query, and the first runs \<^verbatim>\<open>_availability\<close> at most once.
\<close>

theorem repeated_cached_reads_agree:
  assumes mono: "clock e (ticks e) \<le> clock e (Suc (ticks e))"
    and window: "is_hot (clock e k) (quota_after (availability None True None True q e))"
  shows "(let first = availability None True None True q e;
              second = availability later_dt True None True (quota_after first)
                         ((env_after first)\<lparr>ticks := k\<rparr>)
          in result second = result first
             \<and> queries (env_after second) = queries (env_after first)
             \<and> computations (env_after second) = computations (env_after first)
             \<and> computations (env_after first) \<le> Suc (computations e)
             \<and> dem (quota_after first) = dem q)"
proof (cases "serves_stored True True q e")
  case True
  have first: "availability None True None True q e =
     ((cached_availability_state (inst q), cached_availability_number (inst q)), None, q,
      e\<lparr>ticks := Suc (ticks e)\<rparr>)"
    by (rule availability_hit [OF True])
  have hot: "serves_stored True True q (e\<lparr>ticks := k\<rparr>)"
    using window by (simp add: first quota_after_def serves_stored_def)
  show ?thesis
    using availability_hit [OF hot, of later_dt None]
    by (simp add: first Let_def result_def env_after_def quota_after_def)
next
  case False
  have lk: "cache_lookup (cache_check_flag True None) (pk (inst q)) = None"
    by (simp add: cache_lookup_def cache_check_flag_def)
  let ?t = "clock e (Suc (ticks e))"
  have cold: "\<not> is_hot ?t q"
    using False is_hot_mono [OF mono] by (auto simp add: serves_stored_def)
  let ?first = "availability None True None True q e"
  note miss = availability_miss [OF False lk, of None]
  have t: "time_of None (first_env True e) = ?t" by (simp add: time_of_def first_env_def)
  have q1: "cached_availability_state (inst (quota_after ?first)) = fst (result ?first)"
    "cached_availability_number (inst (quota_after ?first)) = snd (result ?first)"
    "cached_availability_time (inst (quota_after ?first)) = Some ?t"
    "dem (quota_after ?first) = dem q"
    using cold
    by (simp_all add: miss t Let_def quota_after_def result_def write_back_eq save_cached_fields_def
        set_cached_verdict_def set_paid_orders_def split: option.splits)
  have c1: "computations (env_after ?first) = Suc (computations e)"
    by (simp add: miss t Let_def env_after_def write_back_eq ua_computations split: option.splits)
  have clk: "clock (env_after ?first) = clock e"
    by (simp add: miss t Let_def env_after_def write_back_eq ua_frame split: option.splits)
  have hot: "serves_stored True True (quota_after ?first) ((env_after ?first)\<lparr>ticks := k\<rparr>)"
    using window by (simp add: serves_stored_def clk)
  show ?thesis
    using availability_hit [OF hot, of later_dt None]
    by (simp add: Let_def result_def env_after_def quota_after_def q1 [unfolded result_def quota_after_def]
        c1 [unfolded env_after_def])
qed

theorem repeated_cached_reads_agree_witness:
  "clock env_1000 (ticks env_1000) \<le> clock env_1000 (Suc (ticks env_1000))
   \<and> is_hot (clock env_1000 2) (quota_after (availability None True None True quota_100 env_1000))
   \<and> result (availability None True None True quota_100 env_1000) = (Some AVAILABILITY_OK, Some 55)
   \<and> result (availability None True None True
               (quota_after (availability None True None True quota_100 env_1000))
               ((env_after (availability None True None True quota_100 env_1000))\<lparr>ticks := 2\<rparr>))
       = (Some AVAILABILITY_OK, Some 55)"
  using repeated_cached_reads_agree [where e = env_1000 and q = quota_100 and k = 2
          and later_dt = None]
  by (simp add: example_defs run_defs is_hot_def)

text \<open>
  The claim as stated fails: two calls of \<^verbatim>\<open>availability()\<close> with its default
  arguments, one microsecond apart and on an unchanged demand, return the same verdict
  but run \<^verbatim>\<open>_availability\<close> twice and issue two sets of count queries.
\<close>

theorem default_calls_compute_twice:
  "result first_call = (Some AVAILABILITY_OK, Some 55)
   \<and> result second_call = (Some AVAILABILITY_OK, Some 55)
   \<and> cached_availability_time (inst (quota_after first_call)) = Some 1000
   \<and> clock (env_after first_call) (ticks (env_after first_call)) = 1001
   \<and> dem (quota_after first_call) = dem quota_100
   \<and> computations (env_after second_call) = 2
   \<and> queries (env_after second_call) =
       [CountPaidOrders, CountPendingOrders, CountBlockingVouchers 1000, CountInCart 1000,
        CountWaitingListPending,
        CountPaidOrders, CountPendingOrders, CountBlockingVouchers 1001, CountInCart 1001,
        CountWaitingListPending]"
  by (simp add: example_defs run_defs)

text \<open>
  C8. For a quota of finite capacity and a fixed demand, \<^verbatim>\<open>_availability\<close> without
  the waiting list never returns a smaller count than with it; and without the waiting
  list neither \<^verbatim>\<open>_availability\<close> nor \<^verbatim>\<open>availability\<close> issues the waiting list query.
\<close>

theorem waitinglist_flag_never_decreases:
  assumes "quota_size (inst q) = Some C"
  shows "(\<exists>a b. snd (fst (underscore_availability now_dt False q e)) = Some a
              \<and> snd (fst (underscore_availability now_dt True q e)) = Some b \<and> b \<le> a)
         \<and> (\<exists>issued. queries (snd (snd (underscore_availability now_dt False q e))) = queries e @ issued
              \<and> CountWaitingListPending \<notin> set issued)
         \<and> (\<exists>issued. queries (env_after (availability now_dt False cache allow_cache q e)) = queries e @ issued
              \<and> CountWaitingListPending \<notin> set issued)"
proof (intro conjI)
  show "\<exists>a b. snd (fst (underscore_availability now_dt False q e)) = Some a
              \<and> snd (fst (underscore_availability now_dt True q e)) = Some b \<and> b \<le> a"
    using assms
    by (simp add: underscore_availability_def now_dt_or_now_eq Let_def split_def count_defs)
  show "\<exists>issued. queries (snd (snd (underscore_availability now_dt False q e))) = queries e @ issued
              \<and> CountWaitingListPending \<notin> set issued"
    using ua_queries_prefix [of now_dt False q e] by simp
  show "\<exists>issued. queries (env_after (availability now_dt False cache allow_cache q e)) = queries e @ issued
              \<and> CountWaitingListPending \<notin> set issued"
    by (rule availability_queries_no_waitinglist)
qed

theorem waitinglist_flag_never_decreases_witness:
  "quota_size (inst quota_100) = Some 100
   \<and> (\<exists>a b. snd (fst (underscore_availability None False quota_100 env_1000)) = Some a
              \<and> snd (fst (underscore_availability None True quota_100 env_1000)) = Some b \<and> b \<le> a)
   \<and> snd (fst (underscore_availability None False quota_100 env_1000)) = Some 60
   \<and> snd (fst (underscore_availability None True quota_100 env_1000)) = Some 55"
  using waitinglist_flag_never_decreases [of quota_100 100 None env_1000 None False]
  by (simp add: example_defs run_defs)

text \<open>
  C9. On an item or a variation whose event is a series, \<^verbatim>\<open>check_quotas\<close> without a
  subevent raises the \<^verbatim>\<open>TypeError\<close> asking for one; no quota has been evaluated and the
  caller's \<^verbatim>\<open>_cache\<close> is as it was.
\<close>

theorem check_quotas_requires_subevent:
  "(event_has_subevents it \<longrightarrow>
      result (Item_check_quotas set_order it ignored_quotas count_waitinglist None cache e)
        = Inl TypeError_supply_subevent
      \<and> cache_after (Item_check_quotas set_order it ignored_quotas count_waitinglist None cache e)
        = cache
      \<and> env_after (Item_check_quotas set_order it ignored_quotas count_waitinglist None cache e)
        = e)
   \<and> (event_has_subevents (var_item var) \<longrightarrow>
      result (ItemVariation_check_quotas set_order var ignored_quotas count_waitinglist None
                cache e)
        = Inl TypeError_supply_subevent
      \<and> cache_after (ItemVariation_check_quotas set_order var ignored_quotas count_waitinglist
                       None cache e)
        = cache
      \<and> env_after (ItemVariation_check_quotas set_order var ignored_quotas count_waitinglist
                     None cache e)
        = e)"
  by (simp add: Item_check_quotas_eq ItemVariation_check_quotas_eq Let_def result_def cache_after_def
      env_after_def)

theorem check_quotas_requires_subevent_witness:
  "event_has_subevents item_of_series
   \<and> result (Item_check_quotas as_listed item_of_series [] True None None env_1000)
       = Inl TypeError_supply_subevent
   \<and> env_after (Item_check_quotas as_listed item_of_series [] True None None env_1000) = env_1000
   \<and> event_has_subevents (var_item variation_of_series)
   \<and> result (ItemVariation_check_quotas as_listed variation_of_series [] True None None env_1000)
       = Inl TypeError_supply_subevent
   \<and> env_after (ItemVariation_check_quotas as_listed variation_of_series [] True None None
         env_1000)
       = env_1000"
  using check_quotas_requires_subevent [where set_order = as_listed and it = item_of_series
          and var = variation_of_series and ignored_quotas = "[]" and count_waitinglist = True
          and cache = None and e = env_1000]
  by (simp add: item_defs)

text \<open>
  C10 (as amended). \<^verbatim>\<open>Item.check_quotas\<close> on an item that has variations, called with
  a subevent or on an event that is not a series, returns \<open>(OK, sys.maxsize)\<close> when no
  quota remains to check; and it raises the \<^verbatim>\<open>ValueError\<close> exactly when the item has
  variations, a subevent is given or the event is not a series, and at least one quota
  remains to check.
\<close>

theorem item_with_variations_without_quotas:
  "(has_variations it \<and> (subev \<noteq> None \<or> \<not> event_has_subevents it)
      \<and> quotas_to_check (subevent_quotas it) (quotas it) subev ignored_quotas = [] \<longrightarrow>
      result (Item_check_quotas set_order it ignored_quotas count_waitinglist subev cache e)
        = Inr (Some AVAILABILITY_OK, Some sys_maxsize))
   \<and> (result (Item_check_quotas set_order it ignored_quotas count_waitinglist subev cache e)
        = Inl ValueError_has_variations
      \<longleftrightarrow> has_variations it \<and> (subev \<noteq> None \<or> \<not> event_has_subevents it)
          \<and> quotas_to_check (subevent_quotas it) (quotas it) subev ignored_quotas \<noteq> [])"
  using combine_error [of count_waitinglist cache
          "set_order (quotas_to_check (subevent_quotas it) (quotas it) subev ignored_quotas)" e]
  by (auto simp add: Item_check_quotas_eq Let_def result_def)

theorem item_with_variations_without_quotas_witness:
  "has_variations item_with_variations \<and> \<not> event_has_subevents item_with_variations
   \<and> quotas_to_check (subevent_quotas item_with_variations) (quotas item_with_variations) None
        [quota_50] = []
   \<and> result (Item_check_quotas as_listed item_with_variations [quota_50] True None None env_1000)
       = Inr (Some AVAILABILITY_OK, Some sys_maxsize)
   \<and> quotas_to_check (subevent_quotas item_with_variations) (quotas item_with_variations) None []
       = [quota_50]
   \<and> result (Item_check_quotas as_listed item_with_variations [] True None None env_1000)
       = Inl ValueError_has_variations"
  using item_with_variations_without_quotas [where set_order = as_listed
          and it = item_with_variations and subev = None
          and ignored_quotas = "[quota_50]" and count_waitinglist = True and cache = None
          and e = env_1000]
        item_with_variations_without_quotas [where set_order = as_listed
          and it = item_with_variations and subev = None
          and ignored_quotas = "[]" and count_waitinglist = True and cache = None
          and e = env_1000]
  by (simp add: item_defs example_defs check_defs)

text \<open>
  The claim as stated fails: on an item of an event series that has variations and no
  quota to check, \<^verbatim>\<open>check_quotas()\<close> without a subevent raises the \<^verbatim>\<open>TypeError\<close> of line
  394, which comes before the check for an empty set.
\<close>

theorem series_item_with_variations_raises_type_error:
  "has_variations item_of_series_with_variations
   \<and> event_has_subevents item_of_series_with_variations
   \<and> quotas_to_check (subevent_quotas item_of_series_with_variations)
        (quotas item_of_series_with_variations) None [] = []
   \<and> result (Item_check_quotas as_listed item_of_series_with_variations [] True None None env_1000)
       = Inl TypeError_supply_subevent"
  by (simp add: item_defs example_defs check_defs result_def)

end
